theory Spec2Isabelle
  imports Complex_Main
begin

section \<open>The upload-and-match request handler of \<^verbatim>\<open>flask_docker/app.py\<close>\<close>

text \<open>
  The repository is one Flask view function, \<^verbatim>\<open>upload_and_match\<close>. It validates a multipart
  request, saves the uploaded image under \<^verbatim>\<open>single/\<close>, encodes its faces with the
  \<^verbatim>\<open>face_recognition\<close> library, compares them with the faces of the candidate images named
  in \<^verbatim>\<open>json_data\<close>, moves the upload to \<^verbatim>\<open>processed/\<close> and answers with JSON.

  The embedding follows the function branch by branch. Everything the function does not
  define itself is a field of the environment \<open>env\<close>: the JSON parser, the image decoder,
  the face detector, the two comparison functions of the library, and the conditions under
  which the operating system refuses a write. The filesystem is passed in and returned.
  Logging is observational only and is left out.
\<close>

subsection \<open>Python values\<close>

text \<open>
  An exception is a value. \<open>Inl e\<close> of a sum type is "raised \<open>e\<close>"; the string is what
  \<^verbatim>\<open>str(e)\<close> gives. The function prints the text of the exceptions of the save, load and
  move steps only, which come from the environment; the texts of the exceptions raised
  below are shortened.
\<close>

datatype py_exception =
    JSONDecodeError string
  | KeyError string
  | TypeError string
  | OSError string
  | LibraryError string

fun str_exc :: "py_exception \<Rightarrow> string" where
  "str_exc (JSONDecodeError m) = m"
| "str_exc (KeyError m) = m"
| "str_exc (TypeError m) = m"
| "str_exc (OSError m) = m"
| "str_exc (LibraryError m) = m"

text \<open>
  What \<^verbatim>\<open>json.loads\<close> returns. \<open>JObj kvs\<close> is a Python dict given by its items in insertion
  order, so the keys of \<open>kvs\<close> are distinct. A Python float is idealised as a real number:
  every finite double is a rational, and comparing two doubles is comparing their values.
\<close>

datatype json =
    JNull
  | JBool bool
  | JInt int
  | JFloat real
  | JStr string
  | JArr "json list"
  | JObj "(string \<times> json) list"

text \<open>\<^verbatim>\<open>for item in photo_data\<close>: a list yields its elements, a dict its keys, a string its
  characters; \<^verbatim>\<open>None\<close>, booleans and numbers are not iterable.\<close>

fun py_iter :: "json \<Rightarrow> py_exception + json list" where
  "py_iter (JArr xs) = Inr xs"
| "py_iter (JObj kvs) = Inr (map (\<lambda>kv. JStr (fst kv)) kvs)"
| "py_iter (JStr s) = Inr (map (\<lambda>c. JStr [c]) s)"
| "py_iter JNull = Inl (TypeError ''object is not iterable'')"
| "py_iter (JBool b) = Inl (TypeError ''object is not iterable'')"
| "py_iter (JInt i) = Inl (TypeError ''object is not iterable'')"
| "py_iter (JFloat r) = Inl (TypeError ''object is not iterable'')"

text \<open>\<^verbatim>\<open>item[key]\<close> with a string key: only a dict can be subscripted by a string, and a
  dict without the key raises \<^verbatim>\<open>KeyError\<close>.\<close>

fun py_getitem :: "json \<Rightarrow> string \<Rightarrow> py_exception + json" where
  "py_getitem (JObj kvs) k =
     (case map_of kvs k of None \<Rightarrow> Inl (KeyError k) | Some v \<Rightarrow> Inr v)"
| "py_getitem (JStr s) k = Inl (TypeError ''string indices must be integers'')"
| "py_getitem (JArr xs) k = Inl (TypeError ''list indices must be integers or slices'')"
| "py_getitem JNull k = Inl (TypeError ''object is not subscriptable'')"
| "py_getitem (JBool b) k = Inl (TypeError ''object is not subscriptable'')"
| "py_getitem (JInt i) k = Inl (TypeError ''object is not subscriptable'')"
| "py_getitem (JFloat r) k = Inl (TypeError ''object is not subscriptable'')"

text \<open>A dict key must be hashable: lists and dicts are not.\<close>

fun hashable :: "json \<Rightarrow> bool" where
  "hashable (JArr xs) = False"
| "hashable (JObj kvs) = False"
| "hashable v = True"

text \<open>Equality of dict keys is Python's \<^verbatim>\<open>==\<close>: \<^verbatim>\<open>True == 1 == 1.0\<close>.\<close>

fun py_number :: "json \<Rightarrow> real option" where
  "py_number (JBool b) = Some (if b then 1 else 0)"
| "py_number (JInt i) = Some (of_int i)"
| "py_number (JFloat r) = Some r"
| "py_number v = None"

definition py_eq :: "json \<Rightarrow> json \<Rightarrow> bool" where
  "py_eq a b =
     (case (py_number a, py_number b) of
        (Some x, Some y) \<Rightarrow> x = y
      | (None, None) \<Rightarrow> a = b
      | _ \<Rightarrow> False)"

text \<open>A dict with arbitrary hashable keys, as its items in insertion order.
  \<^verbatim>\<open>d[k] = v\<close> keeps the position and the key object of an existing entry.\<close>

type_synonym py_dict = "(json \<times> json) list"

fun dict_setitem :: "py_dict \<Rightarrow> json \<Rightarrow> json \<Rightarrow> py_dict" where
  "dict_setitem [] k v = [(k, v)]"
| "dict_setitem ((k', v') # d) k v =
     (if py_eq k' k then (k', v) # d else (k', v') # dict_setitem d k v)"

text \<open>\<^verbatim>\<open>{item['name']: item['id'] for item in photo_data}\<close>, one item at a time.\<close>

fun dict_comprehension :: "json list \<Rightarrow> py_dict \<Rightarrow> py_exception + py_dict" where
  "dict_comprehension [] d = Inr d"
| "dict_comprehension (item # items) d =
     (case py_getitem item ''name'' of
        Inl e \<Rightarrow> Inl e
      | Inr k \<Rightarrow>
          (case py_getitem item ''id'' of
             Inl e \<Rightarrow> Inl e
           | Inr v \<Rightarrow>
               if hashable k then dict_comprehension items (dict_setitem d k v)
               else Inl (TypeError ''unhashable type'')))"

subsection \<open>Strings and paths\<close>

definition lower_char :: "char \<Rightarrow> char" where
  "lower_char c =
     (case map_of (zip ''ABCDEFGHIJKLMNOPQRSTUVWXYZ'' ''abcdefghijklmnopqrstuvwxyz'') c of
        None \<Rightarrow> c
      | Some l \<Rightarrow> l)"

definition lower :: "string \<Rightarrow> string" where
  "lower s = map lower_char s"

definition endswith :: "string \<Rightarrow> string \<Rightarrow> bool" where
  "endswith s suf \<longleftrightarrow> length suf \<le> length s \<and> drop (length s - length suf) s = suf"

text \<open>\<^verbatim>\<open>os.path.join(a, b)\<close> on POSIX: an absolute second part replaces the first.\<close>

definition os_path_join :: "string \<Rightarrow> string \<Rightarrow> string" where
  "os_path_join a b =
     (if b \<noteq> [] \<and> hd b = CHR ''/'' then b
      else if a = [] \<or> last a = CHR ''/'' then a @ b
      else a @ ''/'' @ b)"

text \<open>
  The file a path names. The operating system walks the path component by component:
  empty components and \<^verbatim>\<open>.\<close> stay in place, \<^verbatim>\<open>..\<close> goes to the parent (the root is its own
  parent). A file is identified by whether the path is absolute and by the components
  that remain; symbolic links and the working directory are not modelled.
\<close>

fun split_path :: "string \<Rightarrow> string list" where
  "split_path [] = [[]]"
| "split_path (c # cs) =
     (if c = CHR ''/'' then [] # split_path cs
      else (case split_path cs of [] \<Rightarrow> [[c]] | x # xs \<Rightarrow> (c # x) # xs))"

fun walk :: "bool \<Rightarrow> string list \<Rightarrow> string list \<Rightarrow> string list" where
  "walk absolute [] seen = rev seen"
| "walk absolute (part # parts) seen =
     (if part = [] \<or> part = ''.'' then walk absolute parts seen
      else if part = ''..'' then
        (case seen of
           [] \<Rightarrow> if absolute then walk absolute parts [] else walk absolute parts [part]
         | s # ss \<Rightarrow> if s = ''..'' then walk absolute parts (part # seen)
                     else walk absolute parts ss)
      else walk absolute parts (part # seen))"

type_synonym location = "bool \<times> string list"

definition locate :: "string \<Rightarrow> location" where
  "locate p = (let absolute = (p \<noteq> [] \<and> hd p = CHR ''/'')
               in (absolute, walk absolute (split_path p) []))"

definition inside :: "string \<Rightarrow> string \<Rightarrow> bool" where
  "inside dir p \<longleftrightarrow>
     fst (locate p) = fst (locate dir) \<and>
     length (snd (locate dir)) < length (snd (locate p)) \<and>
     take (length (snd (locate dir))) (snd (locate p)) = snd (locate dir)"

text \<open>The filesystem: the regular files, by location, with their bytes.\<close>

type_synonym filesystem = "location \<rightharpoonup> string"

definition os_path_exists :: "filesystem \<Rightarrow> string \<Rightarrow> bool" where
  "os_path_exists fs p \<longleftrightarrow> fs (locate p) \<noteq> None"

subsection \<open>The environment\<close>

text \<open>
  \<open>'i\<close> is the type of decoded images and \<open>'e\<close> the type of face encodings (128 numbers in
  the library). \<open>encoding_match known face tolerance\<close> is one entry of the list that
  \<^verbatim>\<open>face_recognition.compare_faces\<close> returns and \<open>encoding_distance known face\<close> one entry
  of \<^verbatim>\<open>face_recognition.face_distance\<close>. \<open>save_error\<close> and \<open>move_error\<close> say when the
  operating system makes \<^verbatim>\<open>file.save\<close> and \<^verbatim>\<open>shutil.move\<close> raise (a missing directory,
  permissions, a full disk); a call that raises is taken to leave the files as they were.
\<close>

record ('i, 'e) env =
  BASE_DIR :: string
  json_loads :: "string \<Rightarrow> py_exception + json"
  decode_image :: "string \<Rightarrow> py_exception + 'i"
  detect_faces :: "'i \<Rightarrow> py_exception + 'e list"
  encoding_match :: "'e \<Rightarrow> 'e \<Rightarrow> real \<Rightarrow> bool"
  encoding_distance :: "'e \<Rightarrow> 'e \<Rightarrow> real"
  save_error :: "filesystem \<Rightarrow> string \<Rightarrow> py_exception option"
  move_error :: "filesystem \<Rightarrow> string \<Rightarrow> string \<Rightarrow> py_exception option"

definition BULK_FOLDER :: "('i, 'e) env \<Rightarrow> string" where
  "BULK_FOLDER env = os_path_join (BASE_DIR env) ''bulk''"

definition SINGLE_FOLDER :: "('i, 'e) env \<Rightarrow> string" where
  "SINGLE_FOLDER env = os_path_join (BASE_DIR env) ''single''"

definition PROCESSED_FOLDER :: "('i, 'e) env \<Rightarrow> string" where
  "PROCESSED_FOLDER env = os_path_join (BASE_DIR env) ''processed''"

subsection \<open>The request and the response\<close>

record file_storage =
  filename :: string
  stream :: string

text \<open>\<open>None\<close> is "the part is not in the request".\<close>

record request =
  files_file :: "file_storage option"
  form_json_data :: "string option"

record match_result =
  uploaded_face_index :: nat
  matched_face_index_in_bulk :: nat
  matched_file :: string
  matched_id :: json
  confidence :: string
  face_distance :: real

text \<open>The three shapes of dict the function passes to \<^verbatim>\<open>jsonify\<close>.\<close>

datatype body =
    ErrorBody (error: string)
  | MatchesBody (message: string) (matches: "match_result list") (uploaded_file: string)
  | NoMatchBody (message: string) (uploaded_file: string)

text \<open>What a call of the view function ends in: a response with its status, or an exception
  that no \<^verbatim>\<open>except\<close> clause of the function catches and that leaves the function.\<close>

datatype outcome =
    Response nat body
  | Unhandled py_exception

subsection \<open>Files\<close>

definition file_save ::
  "('i, 'e) env \<Rightarrow> file_storage \<Rightarrow> string \<Rightarrow> filesystem \<Rightarrow> py_exception + filesystem" where
  "file_save env file dst fs =
     (case save_error env fs dst of
        Some e \<Rightarrow> Inl e
      | None \<Rightarrow> Inr (fs(locate dst \<mapsto> stream file)))"

definition shutil_move ::
  "('i, 'e) env \<Rightarrow> string \<Rightarrow> string \<Rightarrow> filesystem \<Rightarrow> py_exception + filesystem" where
  "shutil_move env src dst fs =
     (case move_error env fs src dst of
        Some e \<Rightarrow> Inl e
      | None \<Rightarrow>
          (case fs (locate src) of
             None \<Rightarrow> Inl (OSError ''No such file or directory'')
           | Some data \<Rightarrow> Inr ((fs(locate src := None))(locate dst \<mapsto> data))))"

subsection \<open>The face-recognition library\<close>

definition load_image_file ::
  "('i, 'e) env \<Rightarrow> filesystem \<Rightarrow> string \<Rightarrow> py_exception + 'i" where
  "load_image_file env fs p =
     (case fs (locate p) of
        None \<Rightarrow> Inl (OSError ''No such file or directory'')
      | Some data \<Rightarrow> decode_image env data)"

definition face_encodings :: "('i, 'e) env \<Rightarrow> 'i \<Rightarrow> py_exception + 'e list" where
  "face_encodings env img = detect_faces env img"

definition compare_faces :: "('i, 'e) env \<Rightarrow> 'e list \<Rightarrow> 'e \<Rightarrow> real \<Rightarrow> bool list" where
  "compare_faces env known face tol = map (\<lambda>k. encoding_match env k face tol) known"

definition face_distances :: "('i, 'e) env \<Rightarrow> 'e list \<Rightarrow> 'e \<Rightarrow> real list" where
  "face_distances env known face = map (\<lambda>k. encoding_distance env k face) known"

text \<open>The body of the two \<^verbatim>\<open>try\<close> blocks that load an image and encode its faces.\<close>

definition load_and_encode ::
  "('i, 'e) env \<Rightarrow> filesystem \<Rightarrow> string \<Rightarrow> py_exception + 'e list" where
  "load_and_encode env fs p =
     (case load_image_file env fs p of
        Inl e \<Rightarrow> Inl e
      | Inr img \<Rightarrow> face_encodings env img)"

subsection \<open>Formatting a number with two decimals\<close>

text \<open>
  \<^verbatim>\<open>f"{x:.2f}"\<close> prints the decimal numeral with two fractional digits that is nearest to the
  value of \<open>x\<close>, a tie going to the even last digit.
\<close>

definition round_half_even :: "real \<Rightarrow> int" where
  "round_half_even x =
     (let f = \<lfloor>x\<rfloor>; d = x - of_int f
      in if d < 1 / 2 then f
         else if 1 / 2 < d then f + 1
         else if even f then f else f + 1)"

definition digit_char :: "nat \<Rightarrow> char" where
  "digit_char d = ''0123456789'' ! (d mod 10)"

function decimal :: "nat \<Rightarrow> string" where
  "decimal n = (if n < 10 then [digit_char n] else decimal (n div 10) @ [digit_char (n mod 10)])"
  by pat_completeness auto
termination
  by (relation "measure (\<lambda>n. n)") auto

declare decimal.simps [simp del]

definition hundredths :: "nat \<Rightarrow> string" where
  "hundredths n =
     decimal (n div 100) @ ''.'' @ [digit_char (n mod 100 div 10), digit_char (n mod 10)]"

definition format_2f :: "real \<Rightarrow> string" where
  "format_2f x =
     (if x < 0 then ''-'' else []) @ hundredths (nat (round_half_even (\<bar>x\<bar> * 100)))"

subsection \<open>The view function\<close>

definition tolerance :: real where
  "tolerance = 0.5"

definition distance_threshold :: real where
  "distance_threshold = 0.4"

text \<open>The body of the two nested \<^verbatim>\<open>for\<close> loops, for one pair of faces: the results it
  appends, none or one.\<close>

definition compare_pair ::
  "('i, 'e) env \<Rightarrow> string \<Rightarrow> json \<Rightarrow> nat \<Rightarrow> 'e \<Rightarrow> nat \<Rightarrow> 'e \<Rightarrow> match_result list" where
  "compare_pair env image_file image_id i single_encoding j bulk_encoding =
     (let match = compare_faces env [bulk_encoding] single_encoding tolerance;
          distance = hd (face_distances env [bulk_encoding] single_encoding)
      in if hd match \<and> distance < distance_threshold then
           [\<lparr>uploaded_face_index = i,
             matched_face_index_in_bulk = j,
             matched_file = image_file,
             matched_id = image_id,
             confidence = format_2f (max 0 (1.0 - distance) * 100) @ '' %'',
             face_distance = distance\<rparr>]
         else [])"

definition compare_encodings ::
  "('i, 'e) env \<Rightarrow> string \<Rightarrow> json \<Rightarrow> 'e list \<Rightarrow> 'e list \<Rightarrow> match_result list" where
  "compare_encodings env image_file image_id single_encodings bulk_encodings =
     concat (map (\<lambda>(i, single_encoding).
       concat (map (\<lambda>(j, bulk_encoding).
         compare_pair env image_file image_id i single_encoding j bulk_encoding)
         (enumerate 0 bulk_encodings)))
       (enumerate 0 single_encodings))"

text \<open>
  \<^verbatim>\<open>for image_file, image_id in selected_photos.items()\<close>, with \<open>results\<close> the list built so
  far. \<^verbatim>\<open>os.path.join\<close> raises \<^verbatim>\<open>TypeError\<close> on a name that is not a string, outside any
  \<^verbatim>\<open>try\<close>.
\<close>

fun candidate_loop ::
  "('i, 'e) env \<Rightarrow> filesystem \<Rightarrow> 'e list \<Rightarrow> py_dict \<Rightarrow> match_result list
     \<Rightarrow> py_exception + match_result list" where
  "candidate_loop env fs single_encodings [] results = Inr results"
| "candidate_loop env fs single_encodings ((JStr image_file, image_id) # rest) results =
     (let bulk_image_path = os_path_join (BULK_FOLDER env) image_file
      in if \<not> os_path_exists fs bulk_image_path then
           candidate_loop env fs single_encodings rest results
         else
           (case load_and_encode env fs bulk_image_path of
              Inl e \<Rightarrow> candidate_loop env fs single_encodings rest results
            | Inr bulk_encodings \<Rightarrow>
                if bulk_encodings = [] then
                  candidate_loop env fs single_encodings rest results
                else
                  candidate_loop env fs single_encodings rest
                    (results @ compare_encodings env image_file image_id
                                 single_encodings bulk_encodings)))"
| "candidate_loop env fs single_encodings ((image_file, image_id) # rest) results =
     Inl (TypeError ''join() argument must be str, bytes, or os.PathLike object'')"

text \<open>Lines 56 to 62: the \<^verbatim>\<open>try\<close> block that parses \<^verbatim>\<open>json_data\<close>, and which exceptions
  its \<^verbatim>\<open>except\<close> clause catches.\<close>

definition parse_selected_photos :: "('i, 'e) env \<Rightarrow> string \<Rightarrow> py_exception + py_dict" where
  "parse_selected_photos env json_data =
     (case json_loads env json_data of
        Inl e \<Rightarrow> Inl e
      | Inr photo_data \<Rightarrow>
          (case py_iter photo_data of
             Inl e \<Rightarrow> Inl e
           | Inr items \<Rightarrow> dict_comprehension items []))"

fun caught_as_invalid_json :: "py_exception \<Rightarrow> bool" where
  "caught_as_invalid_json (JSONDecodeError m) = True"
| "caught_as_invalid_json (KeyError m) = True"
| "caught_as_invalid_json e = False"

definition allowed_extension :: "string \<Rightarrow> bool" where
  "allowed_extension name \<longleftrightarrow>
     endswith (lower name) ''.jpg'' \<or> endswith (lower name) ''.jpeg''
     \<or> endswith (lower name) ''.png''"

text \<open>Lines 40 to 62: the checks before the first write. \<open>Inl\<close> is an early return (or an
  exception that escapes), \<open>Inr\<close> the file and the mapping the function goes on with.\<close>

definition validate ::
  "('i, 'e) env \<Rightarrow> request \<Rightarrow> outcome + file_storage \<times> py_dict" where
  "validate env req =
     (case (files_file req, form_json_data req) of
        (Some file, Some json_data) \<Rightarrow>
          if filename file = [] then
            Inl (Response 400 (ErrorBody ''No selected file''))
          else if \<not> allowed_extension (filename file) then
            Inl (Response 400
              (ErrorBody ''Invalid file type. Only .jpg, .jpeg, and .png are allowed.''))
          else
            (case parse_selected_photos env json_data of
               Inl e \<Rightarrow>
                 if caught_as_invalid_json e then
                   Inl (Response 400 (ErrorBody
                     (''Invalid JSON data. Each entry must include '' @ [CHR 0x27] @ ''name''
                      @ [CHR 0x27] @ '' and '' @ [CHR 0x27] @ ''id'' @ [CHR 0x27] @ '' fields.'')))
                 else Inl (Unhandled e)
             | Inr selected_photos \<Rightarrow> Inr (file, selected_photos))
      | _ \<Rightarrow> Inl (Response 400 (ErrorBody ''File and JSON data are required'')))"

text \<open>Lines 64 to 145: save, encode, compare, move, respond.\<close>

definition process ::
  "('i, 'e) env \<Rightarrow> file_storage \<Rightarrow> py_dict \<Rightarrow> filesystem \<Rightarrow> outcome \<times> filesystem" where
  "process env file selected_photos fs =
     (let single_image_path = os_path_join (SINGLE_FOLDER env) (filename file)
      in case file_save env file single_image_path fs of
           Inl e \<Rightarrow>
             (Response 500 (ErrorBody (''Failed to save uploaded file: '' @ str_exc e)), fs)
         | Inr fs1 \<Rightarrow>
             (case load_and_encode env fs1 single_image_path of
                Inl e \<Rightarrow>
                  (Response 500
                     (ErrorBody (''Failed to process the uploaded image: '' @ str_exc e)), fs1)
              | Inr single_encodings \<Rightarrow>
                  if single_encodings = [] then
                    (Response 400 (ErrorBody ''No face detected in the uploaded image''), fs1)
                  else
                    (case candidate_loop env fs1 single_encodings selected_photos [] of
                       Inl e \<Rightarrow> (Unhandled e, fs1)
                     | Inr results \<Rightarrow>
                         (let processed_image_path =
                                os_path_join (PROCESSED_FOLDER env) (filename file)
                          in case shutil_move env single_image_path processed_image_path fs1 of
                               Inl e \<Rightarrow>
                                 (Response 500 (ErrorBody
                                    (''Failed to move processed image: '' @ str_exc e)), fs1)
                             | Inr fs2 \<Rightarrow>
                                 if results \<noteq> [] then
                                   (Response 200
                                      (MatchesBody ''Success! Matches found.'' results
                                         (filename file)), fs2)
                                 else
                                   (Response 200
                                      (NoMatchBody ''No match found'' (filename file)), fs2)))))"

definition upload_and_match ::
  "('i, 'e) env \<Rightarrow> request \<Rightarrow> filesystem \<Rightarrow> outcome \<times> filesystem" where
  "upload_and_match env req fs =
     (case validate env req of
        Inl out \<Rightarrow> (out, fs)
      | Inr (file, selected_photos) \<Rightarrow> process env file selected_photos fs)"

subsection \<open>An example environment\<close>

text \<open>
  A small instance of the environment, used to run the function on concrete requests.
  An encoding is one number instead of 128, the distance of two encodings is the absolute
  difference, and two encodings match when their distance is at most the tolerance, which
  is how the library defines \<^verbatim>\<open>compare_faces\<close> from \<^verbatim>\<open>face_distance\<close>. An image file
  holds a description of the faces in it. \<open>example_loads\<close> gives the value of
  \<^verbatim>\<open>json.loads\<close> on the texts the examples send; no other text is used. No write is
  refused.
\<close>

definition example_loads :: "string \<Rightarrow> py_exception + json" where
  \<open>example_loads text =
     (if text = ''[{"name":"a.jpg","id":1},{"name":"b.jpg","id":2}]'' then
        Inr (JArr [JObj [(''name'', JStr ''a.jpg''), (''id'', JInt 1)],
                   JObj [(''name'', JStr ''b.jpg''), (''id'', JInt 2)]])
      else if text = ''[{"name":"c.jpg","id":3}]'' then
        Inr (JArr [JObj [(''name'', JStr ''c.jpg''), (''id'', JInt 3)]])
      else if text = ''[{"name":"a.jpg"}]'' then
        Inr (JArr [JObj [(''name'', JStr ''a.jpg'')]])
      else if text = ''[1]'' then Inr (JArr [JInt 1])
      else if text = ''{}'' then Inr (JObj [])
      else Inl (JSONDecodeError ''Expecting value: line 1 column 1 (char 0)''))\<close>

definition example_decode :: "string \<Rightarrow> py_exception + string" where
  "example_decode data =
     (if data = ''not an image'' then Inl (LibraryError ''cannot identify image file'')
      else Inr data)"

definition example_detect :: "string \<Rightarrow> py_exception + real list" where
  "example_detect img =
     (if img = ''one face at 0'' then Inr [0]
      else if img = ''one face at 0.2'' then Inr [0.2]
      else if img = ''one face at 0.39999'' then Inr [0.39999]
      else if img = ''one face at 0.65'' then Inr [0.65]
      else Inr [])"

definition example_env :: "(string, real) env" where
  "example_env =
     \<lparr>BASE_DIR = ''/app'',
      json_loads = example_loads,
      decode_image = example_decode,
      detect_faces = example_detect,
      encoding_match = (\<lambda>known face tol. \<bar>known - face\<bar> \<le> tol),
      encoding_distance = (\<lambda>known face. \<bar>known - face\<bar>),
      save_error = (\<lambda>fs dst. None),
      move_error = (\<lambda>fs src dst. None)\<rparr>"

text \<open>\<^verbatim>\<open>bulk/a.jpg\<close> holds a face at distance 0.2 of the face the examples upload,
  \<^verbatim>\<open>bulk/c.jpg\<close> one at distance 0.39999; \<^verbatim>\<open>bulk/b.jpg\<close> does not exist.\<close>

definition example_fs :: filesystem where
  "example_fs =
     [(True, [''app'', ''bulk'', ''a.jpg'']) \<mapsto> ''one face at 0.2'',
      (True, [''app'', ''bulk'', ''c.jpg'']) \<mapsto> ''one face at 0.39999'']"

definition example_request :: "string \<Rightarrow> string \<Rightarrow> string \<Rightarrow> request" where
  "example_request name data json_data =
     \<lparr>files_file = Some \<lparr>filename = name, stream = data\<rparr>,
      form_json_data = Some json_data\<rparr>"

section \<open>Properties\<close>

subsection \<open>Auxiliary facts\<close>

lemma compare_pair_cases:
  "compare_pair env f d i s j b =
     (if encoding_match env b s tolerance \<and> encoding_distance env b s < distance_threshold
      then [\<lparr>uploaded_face_index = i, matched_face_index_in_bulk = j, matched_file = f,
             matched_id = d,
             confidence = format_2f (max 0 (1.0 - encoding_distance env b s) * 100) @ '' %'',
             face_distance = encoding_distance env b s\<rparr>]
      else [])"
  by (simp add: compare_pair_def compare_faces_def face_distances_def Let_def)

lemma in_enumerate_0:
  "p \<in> set (enumerate 0 xs) \<longleftrightarrow> fst p < length xs \<and> snd p = xs ! fst p"
  by (auto simp: in_set_enumerate_eq)

lemma in_compare_encodings:
  "r \<in> set (compare_encodings env f d ses bes) \<longleftrightarrow>
     (\<exists>i j. i < length ses \<and> j < length bes \<and>
            r \<in> set (compare_pair env f d i (ses ! i) j (bes ! j)))"
proof
  assume "r \<in> set (compare_encodings env f d ses bes)"
  then obtain p q where p: "p \<in> set (enumerate 0 ses)" and q: "q \<in> set (enumerate 0 bes)"
    and r: "r \<in> set (compare_pair env f d (fst p) (snd p) (fst q) (snd q))"
    by (auto simp: compare_encodings_def)
  from p q r show "\<exists>i j. i < length ses \<and> j < length bes \<and>
            r \<in> set (compare_pair env f d i (ses ! i) j (bes ! j))"
    by (auto simp: in_enumerate_0)
next
  assume "\<exists>i j. i < length ses \<and> j < length bes \<and>
            r \<in> set (compare_pair env f d i (ses ! i) j (bes ! j))"
  then obtain i j where i: "i < length ses" and j: "j < length bes"
    and r: "r \<in> set (compare_pair env f d i (ses ! i) j (bes ! j))"
    by blast
  have p: "(i, ses ! i) \<in> set (enumerate 0 ses)" using i by (simp add: in_enumerate_0)
  have q: "(j, bes ! j) \<in> set (enumerate 0 bes)" using j by (simp add: in_enumerate_0)
  from p q r show "r \<in> set (compare_encodings env f d ses bes)"
    unfolding compare_encodings_def set_concat set_map by force
qed

lemmas example_defs = example_env_def example_loads_def example_decode_def example_detect_def
  example_fs_def example_request_def
lemmas path_defs = BULK_FOLDER_def SINGLE_FOLDER_def PROCESSED_FOLDER_def os_path_join_def
  locate_def os_path_exists_def
lemma candidate_loop_results:
  assumes "candidate_loop env fs ses sel results = Inr rs"
    and "r \<in> set rs"
    and "\<And>r. r \<in> set results \<Longrightarrow> P r"
    and "\<And>f d bes r. os_path_exists fs (os_path_join (BULK_FOLDER env) f) \<Longrightarrow>
           load_and_encode env fs (os_path_join (BULK_FOLDER env) f) = Inr bes \<Longrightarrow>
           bes \<noteq> [] \<Longrightarrow> r \<in> set (compare_encodings env f d ses bes) \<Longrightarrow> P r"
  shows "P r"
  using assms
proof (induction env fs ses sel results rule: candidate_loop.induct)
  case (1 env fs ses results)
  then show ?case by simp
next
  case (2 env fs ses image_file image_id rest results)
  let ?p = "os_path_join (BULK_FOLDER env) image_file"
  show ?case
  proof (cases "os_path_exists fs ?p")
    case False
    with 2 show ?thesis by simp
  next
    case ex: True
    show ?thesis
    proof (cases "load_and_encode env fs ?p")
      case (Inl e)
      with ex 2 show ?thesis by simp
    next
      case (Inr bes)
      show ?thesis
      proof (cases "bes = []")
        case True
        with ex Inr 2 show ?thesis by simp
      next
        case False
        let ?new = "results @ compare_encodings env image_file image_id ses bes"
        have run: "candidate_loop env fs ses rest ?new = Inr rs"
          using "2.prems"(1) ex Inr False by simp
        have new: "\<And>r. r \<in> set ?new \<Longrightarrow> P r"
          using "2.prems"(3) "2.prems"(4) [OF ex Inr False] by auto
        show ?thesis
          using "2.IH"(4) [OF refl _ Inr False run "2.prems"(2) new "2.prems"(4)] ex
          by simp
      qed
    qed
  qed
qed simp_all

lemma validate_Inl:
  assumes "validate env req = Inl out"
  shows "(\<exists>msg. out = Response 400 (ErrorBody msg)) \<or> (\<exists>e. out = Unhandled e)"
  using assms
  by (auto simp: validate_def split: option.splits if_splits sum.splits)

lemma matches_response:
  assumes "upload_and_match env req fs = (Response 200 (MatchesBody msg rs name), fs')"
  shows "\<exists>file sel fs1 ses.
           validate env req = Inr (file, sel)
         \<and> file_save env file (os_path_join (SINGLE_FOLDER env) (filename file)) fs = Inr fs1
         \<and> load_and_encode env fs1 (os_path_join (SINGLE_FOLDER env) (filename file)) = Inr ses
         \<and> ses \<noteq> []
         \<and> candidate_loop env fs1 ses sel [] = Inr rs"
proof (cases "validate env req")
  case (Inl out)
  with validate_Inl [OF Inl] assms show ?thesis
    by (auto simp: upload_and_match_def)
next
  case (Inr p)
  obtain upl sel where p: "p = (upl, sel)" by (cases p)
  from assms Inr p
  have "process env upl sel fs = (Response 200 (MatchesBody msg rs name), fs')"
    by (simp add: upload_and_match_def)
  then show ?thesis
    using Inr p
    by (auto simp: process_def Let_def split: sum.splits if_splits)
qed

lemma compare_encodings_result:
  assumes "r \<in> set (compare_encodings env f d ses bes)"
  shows "uploaded_face_index r < length ses \<and> matched_face_index_in_bulk r < length bes
       \<and> matched_file r = f \<and> matched_id r = d
       \<and> encoding_match env (bes ! matched_face_index_in_bulk r) (ses ! uploaded_face_index r)
            tolerance
       \<and> face_distance r = encoding_distance env (bes ! matched_face_index_in_bulk r)
                              (ses ! uploaded_face_index r)
       \<and> face_distance r < distance_threshold
       \<and> confidence r = format_2f (max 0 (1.0 - face_distance r) * 100) @ '' %''"
  using assms
  by (auto simp: in_compare_encodings compare_pair_cases split: if_splits)

lemmas format_defs = format_2f_def round_half_even_def hundredths_def decimal.simps
  digit_char_def
lemmas compare_defs = compare_encodings_def compare_pair_cases tolerance_def
  distance_threshold_def

lemma example_parse:
  \<open>parse_selected_photos example_env ''[{"name":"a.jpg","id":1},{"name":"b.jpg","id":2}]''
     = Inr [(JStr ''a.jpg'', JInt 1), (JStr ''b.jpg'', JInt 2)]\<close>
  by (simp add: parse_selected_photos_def example_env_def example_loads_def py_eq_def)


lemma example_validate:
  \<open>validate example_env
     (example_request ''face1.jpg'' data ''[{"name":"a.jpg","id":1},{"name":"b.jpg","id":2}]'')
   = Inr (\<lparr>filename = ''face1.jpg'', stream = data\<rparr>,
          [(JStr ''a.jpg'', JInt 1), (JStr ''b.jpg'', JInt 2)])\<close>
  by (simp add: validate_def example_parse example_request_def allowed_extension_def
      endswith_def lower_def lower_char_def)

lemma candidate_loop_skip_head:
  assumes "\<not> os_path_exists fs (os_path_join (BULK_FOLDER env) image_file)
         \<or> (\<exists>e. load_and_encode env fs (os_path_join (BULK_FOLDER env) image_file) = Inl e)
         \<or> load_and_encode env fs (os_path_join (BULK_FOLDER env) image_file) = Inr []"
  shows "candidate_loop env fs ses ((JStr image_file, image_id) # rest) results
         = candidate_loop env fs ses rest results"
  using assms by (auto simp: Let_def)

lemma candidate_loop_append:
  "candidate_loop env fs ses (xs @ ys) results =
     (case candidate_loop env fs ses xs results of
        Inl e \<Rightarrow> Inl e
      | Inr results' \<Rightarrow> candidate_loop env fs ses ys results')"
proof (induction env fs ses xs results rule: candidate_loop.induct)
  case (2 env fs ses image_file image_id rest results)
  then show ?case
    by (simp add: Let_def split: sum.splits)
qed simp_all

lemma validate_Inr:
  assumes "validate env req = Inr (upl, sel)"
  shows "files_file req = Some upl \<and> filename upl \<noteq> [] \<and> allowed_extension (filename upl)"
  using assms
  by (auto simp: validate_def split: option.splits if_splits sum.splits)

lemma process_keeps_upload:
  assumes "save_error env fs (os_path_join (SINGLE_FOLDER env) (filename upl)) = None"
  shows "snd (process env upl sel fs) (locate (os_path_join (SINGLE_FOLDER env) (filename upl)))
           = Some (stream upl)
       \<or> snd (process env upl sel fs)
            (locate (os_path_join (PROCESSED_FOLDER env) (filename upl))) = Some (stream upl)"
  using assms
  by (auto simp: process_def file_save_def shutil_move_def Let_def
      split: sum.splits option.splits if_splits)

lemma round_half_even_ge: "of_int k \<le> x \<Longrightarrow> k \<le> round_half_even x"
proof -
  assume "of_int k \<le> x"
  then have "k \<le> \<lfloor>x\<rfloor>" by (simp add: le_floor_iff)
  moreover have "\<lfloor>x\<rfloor> \<le> round_half_even x"
    by (simp add: round_half_even_def Let_def)
  ultimately show ?thesis by simp
qed

lemma example_run_near:
  \<open>upload_and_match example_env
     (example_request ''face1.jpg'' ''one face at 0'' ''[{"name":"c.jpg","id":3}]'') example_fs
   = (Response 200
        (MatchesBody ''Success! Matches found.''
           [\<lparr>uploaded_face_index = 0, matched_face_index_in_bulk = 0, matched_file = ''c.jpg'',
             matched_id = JInt 3, confidence = ''60.00 %'', face_distance = 0.39999\<rparr>]
           ''face1.jpg''),
      (example_fs((True, [''app'', ''single'', ''face1.jpg'']) := None))
        ((True, [''app'', ''processed'', ''face1.jpg'']) \<mapsto> ''one face at 0''))\<close>
  apply (simp add: upload_and_match_def validate_def example_request_def
      allowed_extension_def endswith_def lower_def lower_char_def parse_selected_photos_def
      example_env_def example_loads_def)
  apply (simp add: process_def file_save_def shutil_move_def load_and_encode_def
      load_image_file_def face_encodings_def path_defs example_decode_def
      example_detect_def example_fs_def compare_defs)
  apply (simp add: format_defs)
  done

subsection \<open>The match predicate\<close>

text \<open>
  Claim C1. A candidate image that exists, loads and shows at least one face contributes
  the results of the two nested loops, and these hold a result for the uploaded face \<open>i\<close>
  and the bulk face \<open>j\<close> exactly when the library's comparison at tolerance 0.5 holds and
  the distance of the two encodings is below 0.4. So a pair the library reports as a
  match at a distance of 0.4 or more is not recorded.
\<close>

theorem pair_recorded_iff:
  assumes "os_path_exists fs (os_path_join (BULK_FOLDER env) image_file)"
    and "load_and_encode env fs (os_path_join (BULK_FOLDER env) image_file) = Inr bulk_encodings"
    and "bulk_encodings \<noteq> []"
    and "i < length single_encodings"
    and "j < length bulk_encodings"
  shows "candidate_loop env fs single_encodings ((JStr image_file, image_id) # rest) results =
           candidate_loop env fs single_encodings rest
             (results @ compare_encodings env image_file image_id single_encodings bulk_encodings)
       \<and> ((\<exists>r \<in> set (compare_encodings env image_file image_id single_encodings bulk_encodings).
              uploaded_face_index r = i \<and> matched_face_index_in_bulk r = j)
          \<longleftrightarrow> hd (compare_faces env [bulk_encodings ! j] (single_encodings ! i) 0.5)
              \<and> hd (face_distances env [bulk_encodings ! j] (single_encodings ! i)) < 0.4)"
proof
  show "candidate_loop env fs single_encodings ((JStr image_file, image_id) # rest) results =
           candidate_loop env fs single_encodings rest
             (results @ compare_encodings env image_file image_id single_encodings bulk_encodings)"
    using assms(1,2,3) by simp
next
  let ?rs = "compare_encodings env image_file image_id single_encodings bulk_encodings"
  let ?both = "encoding_match env (bulk_encodings ! j) (single_encodings ! i) tolerance
      \<and> encoding_distance env (bulk_encodings ! j) (single_encodings ! i) < distance_threshold"
  have "(\<exists>r \<in> set ?rs. uploaded_face_index r = i \<and> matched_face_index_in_bulk r = j) \<longleftrightarrow> ?both"
  proof
    assume "\<exists>r \<in> set ?rs. uploaded_face_index r = i \<and> matched_face_index_in_bulk r = j"
    then obtain r i' j' where "i' < length single_encodings" "j' < length bulk_encodings"
      and r: "r \<in> set (compare_pair env image_file image_id i' (single_encodings ! i') j'
                         (bulk_encodings ! j'))"
      and ij: "uploaded_face_index r = i" "matched_face_index_in_bulk r = j"
      by (auto simp: in_compare_encodings)
    from r ij have "i' = i" "j' = j"
      by (auto simp: compare_pair_cases split: if_splits)
    with r show ?both
      by (auto simp: compare_pair_cases split: if_splits)
  next
    assume g: ?both
    then have "compare_pair env image_file image_id i (single_encodings ! i) j (bulk_encodings ! j) \<noteq> []"
      by (simp add: compare_pair_cases)
    then obtain r where r: "r \<in> set (compare_pair env image_file image_id i (single_encodings ! i) j
                         (bulk_encodings ! j))"
      by (cases "compare_pair env image_file image_id i (single_encodings ! i) j (bulk_encodings ! j)") auto
    then have "uploaded_face_index r = i \<and> matched_face_index_in_bulk r = j"
      by (auto simp: compare_pair_cases split: if_splits)
    moreover from r assms(4,5) have "r \<in> set ?rs"
      by (auto simp: in_compare_encodings)
    ultimately show "\<exists>r \<in> set ?rs. uploaded_face_index r = i \<and> matched_face_index_in_bulk r = j"
      by blast
  qed
  then show "(\<exists>r \<in> set ?rs. uploaded_face_index r = i \<and> matched_face_index_in_bulk r = j)
          \<longleftrightarrow> hd (compare_faces env [bulk_encodings ! j] (single_encodings ! i) 0.5)
              \<and> hd (face_distances env [bulk_encodings ! j] (single_encodings ! i)) < 0.4"
    by (simp add: compare_faces_def face_distances_def tolerance_def distance_threshold_def)
qed


text \<open>The example: the uploaded face and the face of \<^verbatim>\<open>bulk/a.jpg\<close>, at distance 0.2.\<close>

theorem pair_recorded_iff_witness:
  "os_path_exists example_fs (os_path_join (BULK_FOLDER example_env) ''a.jpg'')
   \<and> load_and_encode example_env example_fs (os_path_join (BULK_FOLDER example_env) ''a.jpg'')
       = Inr [0.2]
   \<and> [0.2 :: real] \<noteq> [] \<and> (0 :: nat) < length [0 :: real] \<and> (0 :: nat) < length [0.2 :: real]
   \<and> candidate_loop example_env example_fs [0] [(JStr ''a.jpg'', JInt 1)] []
       = Inr (compare_encodings example_env ''a.jpg'' (JInt 1) [0] [0.2])
   \<and> (\<exists>r \<in> set (compare_encodings example_env ''a.jpg'' (JInt 1) [0] [0.2]).
         uploaded_face_index r = 0 \<and> matched_face_index_in_bulk r = 0)
   \<and> hd (compare_faces example_env [0.2] 0 0.5) \<and> hd (face_distances example_env [0.2] 0) < 0.4"
proof -
  have h1: "os_path_exists example_fs (os_path_join (BULK_FOLDER example_env) ''a.jpg'')"
    by (simp add: example_defs path_defs)
  have h2: "load_and_encode example_env example_fs
              (os_path_join (BULK_FOLDER example_env) ''a.jpg'') = Inr [0.2]"
    by (simp add: example_defs path_defs load_and_encode_def load_image_file_def
        face_encodings_def)
  have h3: "[0.2 :: real] \<noteq> []" by simp
  have h4: "(0 :: nat) < length [0 :: real]" by simp
  have h5: "(0 :: nat) < length [0.2 :: real]" by simp
  have g: "hd (compare_faces example_env [0.2] 0 0.5)
           \<and> hd (face_distances example_env [0.2] 0) < 0.4"
    by (simp add: compare_faces_def face_distances_def example_env_def)
  from pair_recorded_iff [OF h1 h2 h3 h4 h5, of "JInt 1" "[]" "[]"] g h1 h2
  show ?thesis by simp
qed

subsection \<open>Confidence and distance of a result\<close>



subsection \<open>Entries of \<open>json_data\<close> that are not objects\<close>

text \<open>
  Claim C3. A \<open>json_data\<close> that does not parse, or whose entries are objects without
  \<open>name\<close> or \<open>id\<close>, is answered with 400. An
  array with an entry that is not an object is not: subscripting the entry raises
  \<^verbatim>\<open>TypeError\<close>, which the \<^verbatim>\<open>except (json.JSONDecodeError, KeyError)\<close> clause does not
  catch, so the exception leaves the view function and no "Invalid JSON data" response is
  produced. The request below sends \<^verbatim>\<open>[1]\<close>.
\<close>

theorem non_object_entry_escapes:
  \<open>upload_and_match example_env (example_request ''face1.jpg'' ''one face at 0'' ''[1]'')
     example_fs
   = (Unhandled (TypeError ''object is not subscriptable''), example_fs)\<close>
  by (simp add: upload_and_match_def validate_def example_request_def allowed_extension_def
      endswith_def lower_def lower_char_def parse_selected_photos_def example_env_def
      example_loads_def)

text \<open>A top-level value that is not an array can even pass: the empty object is iterated
  as no entries at all and gives the empty mapping.\<close>

lemma empty_object_accepted:
  "validate example_env (example_request ''face1.jpg'' data ''{}'')
   = Inr (\<lparr>filename = ''face1.jpg'', stream = data\<rparr>, [])"
  by (simp add: validate_def example_request_def allowed_extension_def endswith_def
      lower_def lower_char_def parse_selected_photos_def example_env_def example_loads_def)

subsection \<open>An upload without a face\<close>

text \<open>
  Claim C4. When the request passes validation, the file is saved and the saved image
  shows no face, the answer is 400 "No face detected in the uploaded image". The
  filesystem that is left is the one after the save: the uploaded bytes are at the path
  they were saved to, and nothing was moved to the path under \<^verbatim>\<open>processed/\<close>.
\<close>

theorem no_face_detected:
  assumes "validate env req = Inr (upl, selected_photos)"
    and "file_save env upl (os_path_join (SINGLE_FOLDER env) (filename upl)) fs = Inr fs1"
    and "load_and_encode env fs1 (os_path_join (SINGLE_FOLDER env) (filename upl)) = Inr []"
  shows "upload_and_match env req fs =
           (Response 400 (ErrorBody ''No face detected in the uploaded image''), fs1)
       \<and> fs1 = fs(locate (os_path_join (SINGLE_FOLDER env) (filename upl)) \<mapsto> stream upl)
       \<and> fs1 (locate (os_path_join (SINGLE_FOLDER env) (filename upl))) = Some (stream upl)
       \<and> (locate (os_path_join (PROCESSED_FOLDER env) (filename upl))
             \<noteq> locate (os_path_join (SINGLE_FOLDER env) (filename upl)) \<longrightarrow>
           fs1 (locate (os_path_join (PROCESSED_FOLDER env) (filename upl)))
             = fs (locate (os_path_join (PROCESSED_FOLDER env) (filename upl))))"
proof -
  have run: "upload_and_match env req fs =
           (Response 400 (ErrorBody ''No face detected in the uploaded image''), fs1)"
    using assms by (simp add: upload_and_match_def process_def)
  have saved: "fs1 = fs(locate (os_path_join (SINGLE_FOLDER env) (filename upl)) \<mapsto> stream upl)"
    using assms(2) by (auto simp: file_save_def split: option.splits)
  from run saved show ?thesis by simp
qed

text \<open>The example: a picture without a face.\<close>

theorem no_face_detected_witness:
  \<open>validate example_env
     (example_request ''face1.jpg'' ''a landscape''
        ''[{"name":"a.jpg","id":1},{"name":"b.jpg","id":2}]'')
   = Inr (\<lparr>filename = ''face1.jpg'', stream = ''a landscape''\<rparr>,
          [(JStr ''a.jpg'', JInt 1), (JStr ''b.jpg'', JInt 2)])
   \<and> upload_and_match example_env
       (example_request ''face1.jpg'' ''a landscape''
          ''[{"name":"a.jpg","id":1},{"name":"b.jpg","id":2}]'') example_fs
     = (Response 400 (ErrorBody ''No face detected in the uploaded image''),
        example_fs((True, [''app'', ''single'', ''face1.jpg'']) \<mapsto> ''a landscape''))
   \<and> (example_fs((True, [''app'', ''single'', ''face1.jpg'']) \<mapsto> ''a landscape''))
         (True, [''app'', ''processed'', ''face1.jpg'']) = None\<close>
proof -
  let ?upl = "\<lparr>filename = ''face1.jpg'', stream = ''a landscape''\<rparr>"
  let ?fs1 = "example_fs((True, [''app'', ''single'', ''face1.jpg'']) \<mapsto> ''a landscape'')"
  have p: "locate (os_path_join (SINGLE_FOLDER example_env) (filename ?upl))
           = (True, [''app'', ''single'', ''face1.jpg''])"
    by (simp add: path_defs example_env_def)
  have h2: "file_save example_env ?upl (os_path_join (SINGLE_FOLDER example_env) (filename ?upl))
              example_fs = Inr ?fs1"
    unfolding file_save_def p by (simp add: example_env_def)
  have h3: "load_and_encode example_env ?fs1
              (os_path_join (SINGLE_FOLDER example_env) (filename ?upl)) = Inr []"
    unfolding load_and_encode_def load_image_file_def p
    by (simp add: example_defs face_encodings_def)
  note t = no_face_detected [OF example_validate h2 h3, THEN conjunct1]
  have n: "?fs1 (True, [''app'', ''processed'', ''face1.jpg'']) = None"
    by (simp add: example_fs_def)
  show ?thesis
    by (rule conjI [OF example_validate conjI [OF t n]])
qed

subsection \<open>The move and the two answers\<close>

text \<open>
  Claim C5. When the upload shows at least one face and the loop over the candidates
  runs to its end, the function moves the upload from its path under \<^verbatim>\<open>single/\<close> to the
  path of the same name under \<^verbatim>\<open>processed/\<close>, whether or not \<open>results\<close> is empty. If the
  move raises, the answer is 500. Otherwise the answer is 200, with "Success! Matches
  found." and the results when there are any and with "No match found" when there are
  none, and the uploaded bytes are at the processed path and no longer at the single path.
\<close>

theorem move_then_respond:
  assumes "validate env req = Inr (upl, selected_photos)"
    and "file_save env upl (os_path_join (SINGLE_FOLDER env) (filename upl)) fs = Inr fs1"
    and "load_and_encode env fs1 (os_path_join (SINGLE_FOLDER env) (filename upl))
           = Inr single_encodings"
    and "single_encodings \<noteq> []"
    and "candidate_loop env fs1 single_encodings selected_photos [] = Inr results"
  shows "case shutil_move env (os_path_join (SINGLE_FOLDER env) (filename upl))
                (os_path_join (PROCESSED_FOLDER env) (filename upl)) fs1 of
           Inl e \<Rightarrow>
             upload_and_match env req fs =
               (Response 500 (ErrorBody (''Failed to move processed image: '' @ str_exc e)), fs1)
         | Inr fs2 \<Rightarrow>
             upload_and_match env req fs =
               (Response 200
                  (if results \<noteq> [] then
                     MatchesBody ''Success! Matches found.'' results (filename upl)
                   else NoMatchBody ''No match found'' (filename upl)), fs2)
             \<and> fs2 (locate (os_path_join (PROCESSED_FOLDER env) (filename upl)))
                 = Some (stream upl)
             \<and> (locate (os_path_join (SINGLE_FOLDER env) (filename upl))
                   \<noteq> locate (os_path_join (PROCESSED_FOLDER env) (filename upl)) \<longrightarrow>
                 fs2 (locate (os_path_join (SINGLE_FOLDER env) (filename upl))) = None)"
proof -
  let ?src = "os_path_join (SINGLE_FOLDER env) (filename upl)"
  let ?dst = "os_path_join (PROCESSED_FOLDER env) (filename upl)"
  have saved: "fs1 (locate ?src) = Some (stream upl)"
    using assms(2) by (auto simp: file_save_def split: option.splits)
  show ?thesis
  proof (cases "shutil_move env ?src ?dst fs1")
    case (Inl e)
    then show ?thesis
      using assms by (simp add: upload_and_match_def process_def)
  next
    case (Inr fs2)
    then have fs2: "fs2 = (fs1(locate ?src := None))(locate ?dst \<mapsto> stream upl)"
      using saved by (auto simp: shutil_move_def split: option.splits)
    have run: "upload_and_match env req fs =
               (Response 200
                  (if results \<noteq> [] then
                     MatchesBody ''Success! Matches found.'' results (filename upl)
                   else NoMatchBody ''No match found'' (filename upl)), fs2)"
      using assms Inr by (simp add: upload_and_match_def process_def)
    show ?thesis
      using Inr run fs2 by simp
  qed
qed

text \<open>The example: the uploaded face is at distance 0.45 of the face of \<^verbatim>\<open>bulk/a.jpg\<close>,
  which the library calls a match at tolerance 0.5 and the threshold 0.4 rejects;
  \<^verbatim>\<open>bulk/b.jpg\<close> is missing.\<close>

theorem move_then_respond_witness:
  \<open>candidate_loop example_env
       (example_fs((True, [''app'', ''single'', ''face1.jpg'']) \<mapsto> ''one face at 0.65''))
       [0.65] [(JStr ''a.jpg'', JInt 1), (JStr ''b.jpg'', JInt 2)] [] = Inr []
   \<and> upload_and_match example_env
       (example_request ''face1.jpg'' ''one face at 0.65''
          ''[{"name":"a.jpg","id":1},{"name":"b.jpg","id":2}]'') example_fs
     = (Response 200 (NoMatchBody ''No match found'' ''face1.jpg''),
        (example_fs((True, [''app'', ''single'', ''face1.jpg'']) := None))
          ((True, [''app'', ''processed'', ''face1.jpg'']) \<mapsto> ''one face at 0.65''))\<close>
proof -
  let ?upl = "\<lparr>filename = ''face1.jpg'', stream = ''one face at 0.65''\<rparr>"
  let ?fs1 = "example_fs((True, [''app'', ''single'', ''face1.jpg'']) \<mapsto> ''one face at 0.65'')"
  let ?fs2 = "(example_fs((True, [''app'', ''single'', ''face1.jpg'']) := None))
          ((True, [''app'', ''processed'', ''face1.jpg'']) \<mapsto> ''one face at 0.65'')"
  have src: "locate (os_path_join (SINGLE_FOLDER example_env) (filename ?upl))
           = (True, [''app'', ''single'', ''face1.jpg''])"
    by (simp add: path_defs example_env_def)
  have dst: "locate (os_path_join (PROCESSED_FOLDER example_env) (filename ?upl))
           = (True, [''app'', ''processed'', ''face1.jpg''])"
    by (simp add: path_defs example_env_def)
  have h2: "file_save example_env ?upl (os_path_join (SINGLE_FOLDER example_env) (filename ?upl))
              example_fs = Inr ?fs1"
    unfolding file_save_def src by (simp add: example_env_def)
  have h3: "load_and_encode example_env ?fs1
              (os_path_join (SINGLE_FOLDER example_env) (filename ?upl)) = Inr [0.65]"
    unfolding load_and_encode_def load_image_file_def src
    by (simp add: example_defs face_encodings_def)
  have h4: "[0.65 :: real] \<noteq> []" by simp
  have h5: "candidate_loop example_env ?fs1 [0.65]
              [(JStr ''a.jpg'', JInt 1), (JStr ''b.jpg'', JInt 2)] [] = Inr []"
    by (simp add: path_defs example_defs load_and_encode_def load_image_file_def
        face_encodings_def compare_defs)
  have mv: "shutil_move example_env (os_path_join (SINGLE_FOLDER example_env) (filename ?upl))
              (os_path_join (PROCESSED_FOLDER example_env) (filename ?upl)) ?fs1 = Inr ?fs2"
    unfolding shutil_move_def src dst by (simp add: example_env_def)
  note t = move_then_respond [OF example_validate h2 h3 h4 h5]
  have run: "upload_and_match example_env
       (example_request ''face1.jpg'' ''one face at 0.65''
          ''[{\"name\":\"a.jpg\",\"id\":1},{\"name\":\"b.jpg\",\"id\":2}]'') example_fs
     = (Response 200 (NoMatchBody ''No match found'' ''face1.jpg''), ?fs2)"
    using t unfolding mv by simp
  show ?thesis
    by (rule conjI [OF h5 run])
qed

subsection \<open>Candidates that are skipped\<close>

text \<open>
  Claim C6. A candidate whose file under \<^verbatim>\<open>bulk/\<close> is missing, whose image raises while
  it is loaded or encoded, or whose image shows no face, is skipped and nothing else: at
  any position of the mapping the loop gives what it gives without that candidate, and so
  does the rest of the function, for the response and for the filesystem alike.
\<close>

theorem soft_failure_skips_candidate:
  assumes "\<not> os_path_exists fs (os_path_join (BULK_FOLDER env) image_file)
         \<or> (\<exists>e. load_and_encode env fs (os_path_join (BULK_FOLDER env) image_file) = Inl e)
         \<or> load_and_encode env fs (os_path_join (BULK_FOLDER env) image_file) = Inr []"
  shows "candidate_loop env fs single_encodings
           (before @ (JStr image_file, image_id) # rest) results
         = candidate_loop env fs single_encodings (before @ rest) results
       \<and> (\<forall>upl fs0.
            file_save env upl (os_path_join (SINGLE_FOLDER env) (filename upl)) fs0 = Inr fs \<longrightarrow>
            process env upl (before @ (JStr image_file, image_id) # rest) fs0
            = process env upl (before @ rest) fs0)"
proof -
  have skip: "candidate_loop env fs ses (before @ (JStr image_file, image_id) # rest) acc
         = candidate_loop env fs ses (before @ rest) acc" for ses acc
    unfolding candidate_loop_append [of env fs ses before]
    using candidate_loop_skip_head [OF assms]
    by (simp split: sum.splits)
  have "process env upl (before @ (JStr image_file, image_id) # rest) fs0
            = process env upl (before @ rest) fs0"
    if "file_save env upl (os_path_join (SINGLE_FOLDER env) (filename upl)) fs0 = Inr fs"
    for upl fs0
    using that by (simp add: process_def Let_def skip cong: sum.case_cong if_cong)
  with skip show ?thesis by blast
qed

text \<open>The example: \<^verbatim>\<open>bulk/b.jpg\<close> is missing.\<close>

theorem soft_failure_skips_candidate_witness:
  "\<not> os_path_exists
       (example_fs((True, [''app'', ''single'', ''face1.jpg'']) \<mapsto> ''one face at 0''))
       (os_path_join (BULK_FOLDER example_env) ''b.jpg'')
   \<and> candidate_loop example_env
       (example_fs((True, [''app'', ''single'', ''face1.jpg'']) \<mapsto> ''one face at 0''))
       [0] ([(JStr ''a.jpg'', JInt 1)] @ (JStr ''b.jpg'', JInt 2) # []) []
     = candidate_loop example_env
       (example_fs((True, [''app'', ''single'', ''face1.jpg'']) \<mapsto> ''one face at 0''))
       [0] ([(JStr ''a.jpg'', JInt 1)] @ []) []
   \<and> process example_env \<lparr>filename = ''face1.jpg'', stream = ''one face at 0''\<rparr>
       ([(JStr ''a.jpg'', JInt 1)] @ (JStr ''b.jpg'', JInt 2) # []) example_fs
     = process example_env \<lparr>filename = ''face1.jpg'', stream = ''one face at 0''\<rparr>
       ([(JStr ''a.jpg'', JInt 1)] @ []) example_fs"
proof -
  let ?upl = "\<lparr>filename = ''face1.jpg'', stream = ''one face at 0''\<rparr>"
  let ?fs1 = "example_fs((True, [''app'', ''single'', ''face1.jpg'']) \<mapsto> ''one face at 0'')"
  have missing: "\<not> os_path_exists ?fs1 (os_path_join (BULK_FOLDER example_env) ''b.jpg'')"
    by (simp add: path_defs example_defs)
  have src: "locate (os_path_join (SINGLE_FOLDER example_env) (filename ?upl))
           = (True, [''app'', ''single'', ''face1.jpg''])"
    by (simp add: path_defs example_env_def)
  have saved: "file_save example_env ?upl
                 (os_path_join (SINGLE_FOLDER example_env) (filename ?upl)) example_fs = Inr ?fs1"
    unfolding file_save_def src by (simp add: example_env_def)
  note t = soft_failure_skips_candidate [OF disjI1 [OF missing],
      of "[0]" "[(JStr ''a.jpg'', JInt 1)]" "JInt 2" "[]" "[]"]
  note t2 = t [THEN conjunct2, THEN spec, THEN spec, THEN mp, OF saved]
  show ?thesis
    by (rule conjI [OF missing conjI [OF t [THEN conjunct1] t2]])
qed

subsection \<open>Validation\<close>





subsection \<open>The path the upload is saved to\<close>

text \<open>
  Claim C9. The filename that passed validation is the one the client sent, and the path
  the upload is saved to is \<^verbatim>\<open>os.path.join\<close> of the \<^verbatim>\<open>single\<close> folder and that filename:
  when the operating system refuses a write to this path the answer is the 500 of the
  save step, and otherwise the uploaded bytes end at this path or, after the move, at the
  path of the same name under \<^verbatim>\<open>processed\<close>. Nothing cleans the filename. With the base
  directory \<^verbatim>\<open>/app\<close>, the filename \<^verbatim>\<open>../x.jpg\<close> passes the checks on the filename and the
  path it is saved to is the file \<^verbatim>\<open>/app/x.jpg\<close>, which is not inside \<^verbatim>\<open>/app/single\<close>.
\<close>

theorem upload_path_not_sanitised:
  "(validate env req = Inr (upl, sel) \<longrightarrow>
      files_file req = Some upl
    \<and> (\<forall>e. save_error env fs (os_path_join (os_path_join (BASE_DIR env) ''single'') (filename upl))
              = Some e \<longrightarrow>
           upload_and_match env req fs
           = (Response 500 (ErrorBody (''Failed to save uploaded file: '' @ str_exc e)), fs))
    \<and> (save_error env fs (os_path_join (os_path_join (BASE_DIR env) ''single'') (filename upl))
          = None \<longrightarrow>
         snd (upload_and_match env req fs)
           (locate (os_path_join (os_path_join (BASE_DIR env) ''single'') (filename upl)))
           = Some (stream upl)
       \<or> snd (upload_and_match env req fs)
           (locate (os_path_join (os_path_join (BASE_DIR env) ''processed'') (filename upl)))
           = Some (stream upl)))
   \<and> (BASE_DIR env = ''/app'' \<and> filename upl = ''../x.jpg'' \<longrightarrow>
        filename upl \<noteq> [] \<and> allowed_extension (filename upl)
      \<and> \<not> inside (SINGLE_FOLDER env) (os_path_join (SINGLE_FOLDER env) (filename upl))
      \<and> locate (os_path_join (os_path_join (BASE_DIR env) ''single'') (filename upl))
          = (True, [''app'', ''x.jpg'']))"
proof (intro conjI impI allI)
  assume v: "validate env req = Inr (upl, sel)"
  from validate_Inr [OF v] show "files_file req = Some upl" by simp
  fix e
  assume "save_error env fs (os_path_join (os_path_join (BASE_DIR env) ''single'') (filename upl))
              = Some e"
  with v show "upload_and_match env req fs
           = (Response 500 (ErrorBody (''Failed to save uploaded file: '' @ str_exc e)), fs)"
    by (simp add: upload_and_match_def process_def file_save_def SINGLE_FOLDER_def)
next
  assume v: "validate env req = Inr (upl, sel)"
    and "save_error env fs (os_path_join (os_path_join (BASE_DIR env) ''single'') (filename upl))
          = None"
  then show "snd (upload_and_match env req fs)
           (locate (os_path_join (os_path_join (BASE_DIR env) ''single'') (filename upl)))
           = Some (stream upl)
       \<or> snd (upload_and_match env req fs)
           (locate (os_path_join (os_path_join (BASE_DIR env) ''processed'') (filename upl)))
           = Some (stream upl)"
    using process_keeps_upload [of env fs upl sel]
    by (simp add: upload_and_match_def SINGLE_FOLDER_def PROCESSED_FOLDER_def)
next
  assume a: "BASE_DIR env = ''/app'' \<and> filename upl = ''../x.jpg''"
  then show "filename upl \<noteq> []" by simp
  from a show "allowed_extension (filename upl)"
    by (simp add: allowed_extension_def endswith_def lower_def lower_char_def)
  from a show "\<not> inside (SINGLE_FOLDER env) (os_path_join (SINGLE_FOLDER env) (filename upl))"
    by (simp add: inside_def locate_def SINGLE_FOLDER_def os_path_join_def)
  from a show "locate (os_path_join (os_path_join (BASE_DIR env) ''single'') (filename upl))
          = (True, [''app'', ''x.jpg''])"
    by (simp add: locate_def os_path_join_def)
qed

text \<open>The example: a request with the filename \<^verbatim>\<open>../x.jpg\<close> passes validation and leaves
  its bytes at \<^verbatim>\<open>/app/x.jpg\<close>.\<close>

theorem upload_path_not_sanitised_witness:
  \<open>validate example_env
     (example_request ''../x.jpg'' ''one face at 0''
        ''[{"name":"a.jpg","id":1},{"name":"b.jpg","id":2}]'')
   = Inr (\<lparr>filename = ''../x.jpg'', stream = ''one face at 0''\<rparr>,
          [(JStr ''a.jpg'', JInt 1), (JStr ''b.jpg'', JInt 2)])
   \<and> \<not> inside (SINGLE_FOLDER example_env) (os_path_join (SINGLE_FOLDER example_env) ''../x.jpg'')
   \<and> snd (upload_and_match example_env
           (example_request ''../x.jpg'' ''one face at 0''
              ''[{"name":"a.jpg","id":1},{"name":"b.jpg","id":2}]'') example_fs)
         (True, [''app'', ''x.jpg''])
       = Some ''one face at 0''\<close>
proof -
  let ?upl = "\<lparr>filename = ''../x.jpg'', stream = ''one face at 0''\<rparr>"
  let ?sel = "[(JStr ''a.jpg'', JInt 1), (JStr ''b.jpg'', JInt 2)]"
  let ?req = \<open>example_request ''../x.jpg'' ''one face at 0''
        ''[{"name":"a.jpg","id":1},{"name":"b.jpg","id":2}]''\<close>
  have v: "validate example_env ?req = Inr (?upl, ?sel)"
    by (simp add: validate_def example_parse example_request_def allowed_extension_def
        endswith_def lower_def lower_char_def)
  have base: "BASE_DIR example_env = ''/app'' \<and> filename ?upl = ''../x.jpg''"
    by (simp add: example_env_def)
  have ok: "save_error example_env example_fs
              (os_path_join (os_path_join (BASE_DIR example_env) ''single'') (filename ?upl))
            = None"
    by (simp add: example_env_def)
  have dst: "locate (os_path_join (os_path_join (BASE_DIR example_env) ''processed'')
               (filename ?upl)) = (True, [''app'', ''x.jpg''])"
    by (simp add: locate_def os_path_join_def example_env_def)
  note t = upload_path_not_sanitised [of example_env ?req ?upl ?sel example_fs]
  note t1 = t [THEN conjunct1, THEN mp, OF v, THEN conjunct2, THEN conjunct2, THEN mp, OF ok]
  note t2 = t [THEN conjunct2, THEN mp, OF base]
  have src: "locate (os_path_join (os_path_join (BASE_DIR example_env) ''single'')
               (filename ?upl)) = (True, [''app'', ''x.jpg''])"
    using t2 by simp
  have out: "\<not> inside (SINGLE_FOLDER example_env)
               (os_path_join (SINGLE_FOLDER example_env) ''../x.jpg'')"
    using t2 by simp
  have at: "snd (upload_and_match example_env ?req example_fs) (True, [''app'', ''x.jpg''])
            = Some ''one face at 0''"
    using t1 unfolding src dst by simp
  show ?thesis
    by (rule conjI [OF v conjI [OF out at]])
qed

subsection \<open>The smallest confidence a response reports\<close>

text \<open>
  Claim C10, as stated: every result of a 200 response has a distance below 0.4, so its
  confidence is above 60, and no response reports a confidence at or below
  \<^verbatim>\<open>60.00 %\<close>. The first two parts hold. The last does not, because the confidence is
  reported with two decimals: a face at distance 0.39999 has the confidence 60.001, which
  is reported as \<^verbatim>\<open>60.00 %\<close>.
\<close>

theorem confidence_60_reported:
  \<open>upload_and_match example_env
     (example_request ''face1.jpg'' ''one face at 0'' ''[{"name":"c.jpg","id":3}]'') example_fs
   = (Response 200
        (MatchesBody ''Success! Matches found.''
           [\<lparr>uploaded_face_index = 0, matched_face_index_in_bulk = 0, matched_file = ''c.jpg'',
             matched_id = JInt 3, confidence = ''60.00 %'', face_distance = 0.39999\<rparr>]
           ''face1.jpg''),
      (example_fs((True, [''app'', ''single'', ''face1.jpg'']) := None))
        ((True, [''app'', ''processed'', ''face1.jpg'']) \<mapsto> ''one face at 0''))\<close>
  by (rule example_run_near)

text \<open>
  Claim C10, amended: every result of a 200 response has a distance below 0.4 and a
  confidence value \<open>max(0, 1 - distance) * 100\<close> above 60, and the confidence it reports is
  the two-decimal numeral of at least 6000 hundredths, that is, \<^verbatim>\<open>60.00 %\<close> or more.
\<close>

theorem reported_confidence_bound:
  assumes "upload_and_match env req fs = (Response 200 (MatchesBody msg rs name), fs')"
    and "r \<in> set rs"
  shows "face_distance r < 0.4
       \<and> 60 < max 0 (1.0 - face_distance r) * 100
       \<and> (\<exists>n. 6000 \<le> n \<and> confidence r = hundredths n @ '' %'')"
proof -
  from matches_response [OF assms(1)] obtain upl sel fs1 ses where
    loop: "candidate_loop env fs1 ses sel [] = Inr rs"
    by blast
  let ?P = "\<lambda>r. face_distance r < distance_threshold
      \<and> confidence r = format_2f (max 0 (1.0 - face_distance r) * 100) @ '' %''"
  have P: "?P r"
  proof (rule candidate_loop_results [where P = ?P, OF loop assms(2)])
    fix r :: match_result
    assume "r \<in> set []"
    then show "?P r" by simp
  next
    fix f d bes and r :: match_result
    assume "r \<in> set (compare_encodings env f d ses bes)"
    then show "?P r"
      using compare_encodings_result [of r env f d ses bes] by simp
  qed
  then have lt: "face_distance r < 0.4"
    by (simp add: distance_threshold_def)
  define c where "c = max 0 (1.0 - face_distance r) * 100"
  from lt have gt: "60 < c"
    by (simp add: c_def)
  then have nonneg: "0 \<le> c" by simp
  then have pos: "\<not> c < 0" by (simp only: not_less)
  from nonneg have abs: "\<bar>c\<bar> = c" by (rule abs_of_nonneg)
  from gt have "of_int 6000 \<le> c * 100" by simp
  then have n: "6000 \<le> round_half_even (c * 100)"
    by (rule round_half_even_ge)
  have "format_2f c = hundredths (nat (round_half_even (c * 100)))"
    unfolding format_2f_def abs using pos by (simp only: if_False append_Nil)
  with P have "confidence r = hundredths (nat (round_half_even (c * 100))) @ '' %''"
    by (simp add: c_def)
  moreover have "6000 \<le> nat (round_half_even (c * 100))"
    using n by simp
  ultimately show ?thesis
    using lt gt unfolding c_def by blast
qed

text \<open>The example: the face of \<^verbatim>\<open>bulk/c.jpg\<close>, at distance 0.39999.\<close>

theorem reported_confidence_bound_witness:
  \<open>upload_and_match example_env
     (example_request ''face1.jpg'' ''one face at 0'' ''[{"name":"c.jpg","id":3}]'') example_fs
   = (Response 200
        (MatchesBody ''Success! Matches found.''
           [\<lparr>uploaded_face_index = 0, matched_face_index_in_bulk = 0, matched_file = ''c.jpg'',
             matched_id = JInt 3, confidence = ''60.00 %'', face_distance = 0.39999\<rparr>]
           ''face1.jpg''),
      (example_fs((True, [''app'', ''single'', ''face1.jpg'']) := None))
        ((True, [''app'', ''processed'', ''face1.jpg'']) \<mapsto> ''one face at 0''))
   \<and> (0.39999 :: real) < 0.4
   \<and> (60 :: real) < max 0 (1.0 - 0.39999) * 100
   \<and> (\<exists>n. 6000 \<le> n \<and> ''60.00 %'' = hundredths n @ '' %'')\<close>
proof -
  let ?r = "\<lparr>uploaded_face_index = 0, matched_face_index_in_bulk = 0, matched_file = ''c.jpg'',
             matched_id = JInt 3, confidence = ''60.00 %'', face_distance = 0.39999\<rparr>"
  have m: "?r \<in> set [?r]" by simp
  note t = reported_confidence_bound [OF example_run_near m]
  have a: "(0.39999 :: real) < 0.4"
    using t [THEN conjunct1] by simp
  have b: "(60 :: real) < max 0 (1.0 - 0.39999) * 100"
    using t [THEN conjunct2, THEN conjunct1] by simp
  have c: "\<exists>n. 6000 \<le> n \<and> ''60.00 %'' = hundredths n @ '' %''"
    using t [THEN conjunct2, THEN conjunct2] by simp
  show ?thesis
    by (rule conjI [OF example_run_near conjI [OF a conjI [OF b c]]])
qed

end
